theory Spec2Isabelle
  imports Complex_Main
begin

section \<open>Data model\<close>

text \<open>
  The program is \<^verbatim>\<open>etl.py\<close>: two Python functions that read JSON records into
  DataFrames, register them as temporary views of the Spark session, run five SQL
  statements against those views and write the results as parquet file sets. The
  module first copies two AWS credentials from \<^verbatim>\<open>dl.cfg\<close> into the environment; the
  model starts at \<^verbatim>\<open>main\<close>.

  A cell of a DataFrame is a \<open>val\<close>. \<open>Num\<close> stands for Spark's integer types (as
  unbounded integers: the program does no integer arithmetic), \<open>Dbl\<close> for a double (as
  the rational number it denotes; the program only copies and compares doubles, and
  divides one epoch value by 1000), \<open>Tstamp\<close> for a timestamp in microseconds since
  1970-01-01T00:00:00Z. A table is the list of its rows; Spark fixes no order of rows,
  and the model keeps the order of the input.
\<close>

datatype val = Null | Str string | Num int | Dbl rat | Tstamp int | Bool bool

record dataframe =
  columns :: "string list"
  rows :: "val list list"

text \<open>Every exception the run can raise is a value of \<open>error\<close>.\<close>

datatype error =
    PathNotFound string
  | PathAlreadyExists string
  | TableOrViewNotFound string
  | CannotResolve "string list"
  | AmbiguousReference "string list"
  | UndefinedFunction string
  | InvalidArguments string
  | PartitionColumnNotFound string

text \<open>
  One song-metadata record and one event-log record, as \<^verbatim>\<open>spark.read.json\<close> delivers
  them: every field is nullable, a field that a JSON object lacks (or gives as
  \<^verbatim>\<open>null\<close>) is \<open>None\<close>. The fields are the ones the statements of the program name.
  Spark infers the columns from the files; the model takes the columns of the two
  datasets as given, so a statement never fails for a column that no file happens to
  carry.
\<close>

record song_record =
  song_id :: "string option"
  title :: "string option"
  artist_id :: "string option"
  artist_name :: "string option"
  artist_location :: "string option"
  artist_latitude :: "rat option"
  artist_longitude :: "rat option"
  year :: "int option"
  duration :: "rat option"

record log_record =
  userId :: "string option"
  firstName :: "string option"
  lastName :: "string option"
  gender :: "string option"
  level :: "string option"
  page :: "string option"
  ts :: "int option"
  sessionId :: "int option"
  location :: "string option"
  userAgent :: "string option"
  artist :: "string option"
  song :: "string option"

definition str :: "string option \<Rightarrow> val" where
  "str x = (case x of None \<Rightarrow> Null | Some s \<Rightarrow> Str s)"

definition num :: "int option \<Rightarrow> val" where
  "num x = (case x of None \<Rightarrow> Null | Some n \<Rightarrow> Num n)"

definition dbl :: "rat option \<Rightarrow> val" where
  "dbl x = (case x of None \<Rightarrow> Null | Some d \<Rightarrow> Dbl d)"

text \<open>The DataFrame of a list of records; the JSON reader orders columns by name.\<close>

definition song_columns :: "string list" where
  "song_columns = [''artist_id'', ''artist_latitude'', ''artist_location'',
     ''artist_longitude'', ''artist_name'', ''duration'', ''song_id'', ''title'', ''year'']"

definition song_vals :: "song_record \<Rightarrow> val list" where
  "song_vals r = [str (artist_id r), dbl (artist_latitude r), str (artist_location r),
     dbl (artist_longitude r), str (artist_name r), dbl (duration r), str (song_id r),
     str (title r), num (year r)]"

definition log_columns :: "string list" where
  "log_columns = [''artist'', ''firstName'', ''gender'', ''lastName'', ''level'',
     ''location'', ''page'', ''sessionId'', ''song'', ''ts'', ''userAgent'', ''userId'']"

definition log_vals :: "log_record \<Rightarrow> val list" where
  "log_vals r = [str (artist r), str (firstName r), str (gender r), str (lastName r),
     str (level r), str (location r), str (page r), num (sessionId r), str (song r),
     num (ts r), str (userAgent r), str (userId r)]"

definition songs_df :: "song_record list \<Rightarrow> dataframe" where
  "songs_df rs = \<lparr>columns = song_columns, rows = map song_vals rs\<rparr>"

definition logs_df :: "log_record list \<Rightarrow> dataframe" where
  "logs_df rs = \<lparr>columns = log_columns, rows = map log_vals rs\<rparr>"

section \<open>Calendar fields of a timestamp\<close>

text \<open>
  Spark's \<^verbatim>\<open>hour\<close>, \<^verbatim>\<open>dayofmonth\<close>, \<^verbatim>\<open>weekofyear\<close>, \<^verbatim>\<open>month\<close>, \<^verbatim>\<open>year\<close> and
  \<^verbatim>\<open>dayofweek\<close> read a timestamp in the session's time zone, given here as an offset
  \<open>tz\<close> from UTC in seconds. Days are counted from 1970-01-01 in the proleptic Gregorian
  calendar.
\<close>

definition local_seconds :: "int \<Rightarrow> int \<Rightarrow> int" where
  "local_seconds tz us = us div 1000000 + tz"

definition local_day :: "int \<Rightarrow> int \<Rightarrow> int" where
  "local_day tz us = local_seconds tz us div 86400"

definition civil_from_days :: "int \<Rightarrow> int \<times> int \<times> int" where
  "civil_from_days z =
     (let z' = z + 719468;
          era = z' div 146097;
          doe = z' mod 146097;
          yoe = (doe - doe div 1460 + doe div 36524 - doe div 146096) div 365;
          doy = doe - (365 * yoe + yoe div 4 - yoe div 100);
          mp = (5 * doy + 2) div 153;
          d = doy - (153 * mp + 2) div 5 + 1;
          m = (if mp < 10 then mp + 3 else mp - 9);
          y = yoe + era * 400
      in (if m \<le> 2 then y + 1 else y, m, d))"

definition days_from_civil :: "int \<Rightarrow> int \<Rightarrow> int \<Rightarrow> int" where
  "days_from_civil y m d =
     (let y' = (if m \<le> 2 then y - 1 else y);
          era = y' div 400;
          yoe = y' mod 400;
          doy = (153 * (if 2 < m then m - 3 else m + 9) + 2) div 5 + d - 1;
          doe = yoe * 365 + yoe div 4 - yoe div 100 + doy
      in era * 146097 + doe - 719468)"

definition hour_of :: "int \<Rightarrow> int \<Rightarrow> int" where
  "hour_of tz us = (local_seconds tz us mod 86400) div 3600"



definition year_of :: "int \<Rightarrow> int \<Rightarrow> int" where
  "year_of tz us = fst (civil_from_days (local_day tz us))"

definition month_of :: "int \<Rightarrow> int \<Rightarrow> int" where
  "month_of tz us = fst (snd (civil_from_days (local_day tz us)))"

definition dayofmonth_of :: "int \<Rightarrow> int \<Rightarrow> int" where
  "dayofmonth_of tz us = snd (snd (civil_from_days (local_day tz us)))"

text \<open>\<^verbatim>\<open>dayofweek\<close>: 1 is Sunday, 7 is Saturday; day 0 was a Thursday.\<close>

definition dayofweek_of :: "int \<Rightarrow> int \<Rightarrow> int" where
  "dayofweek_of tz us = (local_day tz us + 4) mod 7 + 1"

text \<open>
  \<^verbatim>\<open>weekofyear\<close>: the ISO 8601 week, which is the week of the year that holds the
  Thursday of the day's Monday-to-Sunday week.
\<close>

definition weekofyear_of :: "int \<Rightarrow> int \<Rightarrow> int" where
  "weekofyear_of tz us =
     (let d = local_day tz us;
          thursday = d - (d + 3) mod 7 + 3;
          y = fst (civil_from_days thursday)
      in (thursday - days_from_civil y 1 1) div 7 + 1)"

section \<open>The SQL the program sends to the session\<close>

text \<open>
  A statement is kept as its syntax tree, and \<^verbatim>\<open>spark.sql\<close> is the function
  \<open>run_query\<close> below: it looks the views up, resolves every column reference and
  function name (raising the analysis error Spark raises when one does not resolve), and
  only then computes rows. A column reference is a list of name parts, \<^verbatim>\<open>song_id\<close> or
  \<^verbatim>\<open>log.ts\<close>. Names are compared as written; Spark by default ignores case, which
  makes no difference for the names of this program.
\<close>

datatype expr =
    Col "string list"
  | Lit val
  | Divide expr expr
  | Equals expr expr
  | And expr expr
  | IsNotNull expr
  | Call string "expr list"

datatype source =
    Table string "string option"
  | Join source source expr
  | Subquery query string
and query =
    Select bool "(expr \<times> string) list" source "expr option"

text \<open>
  An attribute of an intermediate relation is a column name with the qualifier (table
  name or alias) under which the FROM clause exposes it.
\<close>

type_synonym attribute = "string \<times> string"

record relation =
  attrs :: "attribute list"
  tuples :: "val list list"

fun refers :: "string list \<Rightarrow> attribute \<Rightarrow> bool" where
  "refers [c] (q, n) = (c = n)"
| "refers [q', c] (q, n) = (q' = q \<and> c = n)"
| "refers _ _ = False"

fun candidates :: "string list \<Rightarrow> attribute list \<Rightarrow> nat \<Rightarrow> nat list" where
  "candidates name [] i = []"
| "candidates name (a # as) i =
     (if refers name a then i # candidates name as (Suc i) else candidates name as (Suc i))"

definition resolve :: "attribute list \<Rightarrow> string list \<Rightarrow> error + nat" where
  "resolve as name =
     (case candidates name as 0 of
        [] \<Rightarrow> Inl (CannotResolve name)
      | [i] \<Rightarrow> Inr i
      | _ \<Rightarrow> Inl (AmbiguousReference name))"

definition builtin_arity :: "string \<Rightarrow> nat option" where
  "builtin_arity = map_of [(''to_timestamp'', 1), (''hour'', 1), (''dayofmonth'', 1),
     (''weekofyear'', 1), (''month'', 1), (''year'', 1), (''dayofweek'', 1),
     (''monotonically_increasing_id'', 0)]"

fun first_error :: "error option list \<Rightarrow> error option" where
  "first_error [] = None"
| "first_error (None # es) = first_error es"
| "first_error (Some e # es) = Some e"

fun analyse_expr :: "attribute list \<Rightarrow> expr \<Rightarrow> error option" where
  "analyse_expr as (Col name) = (case resolve as name of Inl e \<Rightarrow> Some e | Inr _ \<Rightarrow> None)"
| "analyse_expr as (Lit v) = None"
| "analyse_expr as (Divide a b) = first_error [analyse_expr as a, analyse_expr as b]"
| "analyse_expr as (Equals a b) = first_error [analyse_expr as a, analyse_expr as b]"
| "analyse_expr as (And a b) = first_error [analyse_expr as a, analyse_expr as b]"
| "analyse_expr as (IsNotNull a) = analyse_expr as a"
| "analyse_expr as (Call f args) =
     (case builtin_arity f of
        None \<Rightarrow> Some (UndefinedFunction f)
      | Some n \<Rightarrow>
          if n \<noteq> length args then Some (InvalidArguments f)
          else first_error (map (analyse_expr as) args))"

text \<open>
  Scalar operators. Each is given on the shapes of value that the columns of this
  program's tables deliver to it, and propagates \<open>Null\<close>; SQL equality and conjunction
  are three-valued.
\<close>

definition as_double :: "val \<Rightarrow> rat option" where
  "as_double v = (case v of Num n \<Rightarrow> Some (of_int n) | Dbl d \<Rightarrow> Some d | _ \<Rightarrow> None)"

definition divide_val :: "val \<Rightarrow> val \<Rightarrow> val" where
  "divide_val a b =
     (case (as_double a, as_double b) of
        (Some x, Some y) \<Rightarrow> if y = 0 then Null else Dbl (x / y)
      | _ \<Rightarrow> Null)"

definition equals_val :: "val \<Rightarrow> val \<Rightarrow> val" where
  "equals_val a b = (if a = Null \<or> b = Null then Null else Bool (a = b))"

definition and_val :: "val \<Rightarrow> val \<Rightarrow> val" where
  "and_val a b =
     (if a = Bool False \<or> b = Bool False then Bool False
      else if a = Bool True \<and> b = Bool True then Bool True
      else Null)"

definition truncate_rat :: "rat \<Rightarrow> int" where
  "truncate_rat x = (if 0 \<le> x then \<lfloor>x\<rfloor> else \<lceil>x\<rceil>)"

text \<open>
  \<^verbatim>\<open>to_timestamp\<close> of a number casts seconds since the epoch to a timestamp, keeping
  microseconds. The quotient \<^verbatim>\<open>ts/1000\<close> is a double in Spark and exact here: the
  rounding of the double, below a microsecond for epoch values of this century, is not
  modelled.
\<close>

definition to_timestamp :: "val \<Rightarrow> val" where
  "to_timestamp v =
     (case v of
        Dbl d \<Rightarrow> Tstamp (truncate_rat (d * 1000000))
      | Num n \<Rightarrow> Tstamp (n * 1000000)
      | Tstamp t \<Rightarrow> Tstamp t
      | _ \<Rightarrow> Null)"

definition field_of :: "(int \<Rightarrow> int) \<Rightarrow> val \<Rightarrow> val" where
  "field_of f v = (case v of Tstamp t \<Rightarrow> Num (f t) | _ \<Rightarrow> Null)"

text \<open>
  \<open>i\<close> is the number of the row being produced: \<^verbatim>\<open>monotonically_increasing_id()\<close>
  counts rows from 0 within a partition, and the model has one partition.
\<close>

fun builtin :: "int \<Rightarrow> nat \<Rightarrow> string \<Rightarrow> val list \<Rightarrow> val" where
  "builtin tz i f [] = (if f = ''monotonically_increasing_id'' then Num (int i) else Null)"
| "builtin tz i f [v] =
     (if f = ''to_timestamp'' then to_timestamp v
      else if f = ''hour'' then field_of (hour_of tz) v
      else if f = ''dayofmonth'' then field_of (dayofmonth_of tz) v
      else if f = ''weekofyear'' then field_of (weekofyear_of tz) v
      else if f = ''month'' then field_of (month_of tz) v
      else if f = ''year'' then field_of (year_of tz) v
      else if f = ''dayofweek'' then field_of (dayofweek_of tz) v
      else Null)"
| "builtin tz i f vs = Null"

text \<open>
  The value of an analysed expression on a tuple, which has one value per attribute, so
  that the position \<open>resolve\<close> gives lies within it.
\<close>

fun eval_expr :: "int \<Rightarrow> attribute list \<Rightarrow> nat \<Rightarrow> val list \<Rightarrow> expr \<Rightarrow> val" where
  "eval_expr tz as i t (Col name) = (case resolve as name of Inr k \<Rightarrow> t ! k | Inl _ \<Rightarrow> Null)"
| "eval_expr tz as i t (Lit v) = v"
| "eval_expr tz as i t (Divide a b) = divide_val (eval_expr tz as i t a) (eval_expr tz as i t b)"
| "eval_expr tz as i t (Equals a b) = equals_val (eval_expr tz as i t a) (eval_expr tz as i t b)"
| "eval_expr tz as i t (And a b) = and_val (eval_expr tz as i t a) (eval_expr tz as i t b)"
| "eval_expr tz as i t (IsNotNull a) = Bool (eval_expr tz as i t a \<noteq> Null)"
| "eval_expr tz as i t (Call f args) = builtin tz i f (map (eval_expr tz as i t) args)"

definition holds :: "int \<Rightarrow> attribute list \<Rightarrow> expr \<Rightarrow> val list \<Rightarrow> bool" where
  "holds tz as cond t = (eval_expr tz as 0 t cond = Bool True)"

definition cross :: "val list list \<Rightarrow> val list list \<Rightarrow> val list list" where
  "cross ls rs = concat (map (\<lambda>l. map (\<lambda>r. l @ r) rs) ls)"

definition qualifier :: "string \<Rightarrow> string option \<Rightarrow> string" where
  "qualifier name alias = (case alias of None \<Rightarrow> name | Some a \<Rightarrow> a)"

text \<open>
  Analysis goes bottom-up: the views of the FROM clause first, then the ON condition of a
  join, then WHERE and the select list. Rows are computed only when nothing has raised.
\<close>

fun run_source :: "int \<Rightarrow> (string \<rightharpoonup> dataframe) \<Rightarrow> source \<Rightarrow> error + relation"
and run_query :: "int \<Rightarrow> (string \<rightharpoonup> dataframe) \<Rightarrow> query \<Rightarrow> error + dataframe" where
  "run_source tz views (Table name alias) =
     (case views name of
        None \<Rightarrow> Inl (TableOrViewNotFound name)
      | Some df \<Rightarrow> Inr \<lparr>attrs = map (Pair (qualifier name alias)) (columns df), tuples = rows df\<rparr>)"
| "run_source tz views (Join l r cond) =
     (case run_source tz views l of
        Inl e \<Rightarrow> Inl e
      | Inr lrel \<Rightarrow>
          (case run_source tz views r of
             Inl e \<Rightarrow> Inl e
           | Inr rrel \<Rightarrow>
               (case analyse_expr (attrs lrel @ attrs rrel) cond of
                  Some e \<Rightarrow> Inl e
                | None \<Rightarrow>
                    Inr \<lparr>attrs = attrs lrel @ attrs rrel,
                         tuples = filter (holds tz (attrs lrel @ attrs rrel) cond)
                                    (cross (tuples lrel) (tuples rrel))\<rparr>)))"
| "run_source tz views (Subquery q alias) =
     (case run_query tz views q of
        Inl e \<Rightarrow> Inl e
      | Inr df \<Rightarrow> Inr \<lparr>attrs = map (Pair alias) (columns df), tuples = rows df\<rparr>)"
| "run_query tz views (Select dedup items src wh) =
     (case run_source tz views src of
        Inl e \<Rightarrow> Inl e
      | Inr rel \<Rightarrow>
          (case first_error (map (analyse_expr (attrs rel)) (case wh of None \<Rightarrow> [] | Some c \<Rightarrow> [c])
                             @ map (\<lambda>(e, n). analyse_expr (attrs rel) e) items) of
             Some e \<Rightarrow> Inl e
           | None \<Rightarrow>
               (let kept = (case wh of None \<Rightarrow> tuples rel
                            | Some c \<Rightarrow> filter (holds tz (attrs rel) c) (tuples rel));
                    out = map (\<lambda>(i, t). map (\<lambda>(e, n). eval_expr tz (attrs rel) i t e) items)
                            (enumerate 0 kept)
                in Inr \<lparr>columns = map snd items, rows = (if dedup then remdups out else out)\<rparr>)))"

section \<open>Session and storage\<close>

text \<open>
  The session holds the temporary views; \<^verbatim>\<open>getOrCreate\<close> in a new process gives a
  session without any. The time zone of the session is not set by the program and is a
  parameter. Object storage maps a path (or glob pattern) to the records of the JSON files
  found there, and a directory to the parquet table last written to it.
\<close>

record spark_session =
  time_zone :: int
  temp_views :: "string \<rightharpoonup> dataframe"

datatype json_files = SongFiles "song_record list" | LogFiles "log_record list"

record storage =
  json :: "string \<rightharpoonup> json_files"
  parquet :: "string \<rightharpoonup> dataframe"

datatype save_mode = Overwrite | Append | ErrorIfExists | Ignore

definition create_spark_session :: "int \<Rightarrow> spark_session" where
  "create_spark_session tz = \<lparr>time_zone = tz, temp_views = Map.empty\<rparr>"

definition read_json :: "storage \<Rightarrow> string \<Rightarrow> error + dataframe" where
  "read_json fs path =
     (case json fs path of
        None \<Rightarrow> Inl (PathNotFound path)
      | Some (SongFiles rs) \<Rightarrow> Inr (songs_df rs)
      | Some (LogFiles rs) \<Rightarrow> Inr (logs_df rs))"

definition read_parquet :: "storage \<Rightarrow> string \<Rightarrow> error + dataframe" where
  "read_parquet fs path =
     (case parquet fs path of None \<Rightarrow> Inl (PathNotFound path) | Some df \<Rightarrow> Inr df)"

definition createOrReplaceTempView :: "dataframe \<Rightarrow> string \<Rightarrow> spark_session \<Rightarrow> spark_session" where
  "createOrReplaceTempView df name spark = spark\<lparr>temp_views := (temp_views spark)(name \<mapsto> df)\<rparr>"

definition sql :: "spark_session \<Rightarrow> query \<Rightarrow> error + dataframe" where
  "sql spark q = run_query (time_zone spark) (temp_views spark) q"

text \<open>\<^verbatim>\<open>df.filter(cond)\<close>, the condition built from the DataFrame's own columns.\<close>

definition filter_df :: "int \<Rightarrow> expr \<Rightarrow> dataframe \<Rightarrow> error + dataframe" where
  "filter_df tz cond df =
     (case analyse_expr (map (Pair []) (columns df)) cond of
        Some e \<Rightarrow> Inl e
      | None \<Rightarrow> Inr (df\<lparr>rows := filter (holds tz (map (Pair []) (columns df)) cond) (rows df)\<rparr>))"

text \<open>
  \<^verbatim>\<open>df.write.mode(m).partitionBy(cols).parquet(path)\<close>. The partition columns must be
  columns of the DataFrame; the directory layout they produce is not part of the table's
  content and is not modelled.
\<close>

definition write_parquet ::
  "save_mode \<Rightarrow> string list \<Rightarrow> string \<Rightarrow> dataframe \<Rightarrow> storage \<Rightarrow> error + storage" where
  "write_parquet mode partition_by path df fs =
     (case filter (\<lambda>c. c \<notin> set (columns df)) partition_by of
        c # _ \<Rightarrow> Inl (PartitionColumnNotFound c)
      | [] \<Rightarrow>
          (case (mode, parquet fs path) of
             (Overwrite, _) \<Rightarrow> Inr (fs\<lparr>parquet := (parquet fs)(path \<mapsto> df)\<rparr>)
           | (_, None) \<Rightarrow> Inr (fs\<lparr>parquet := (parquet fs)(path \<mapsto> df)\<rparr>)
           | (Append, Some old) \<Rightarrow>
               Inr (fs\<lparr>parquet := (parquet fs)(path \<mapsto> old\<lparr>rows := rows old @ rows df\<rparr>)\<rparr>)
           | (ErrorIfExists, Some old) \<Rightarrow> Inl (PathAlreadyExists path)
           | (Ignore, Some old) \<Rightarrow> Inr fs))"

section \<open>The five statements\<close>

text \<open>An unaliased column of a select list keeps its own name.\<close>

definition songs_sql :: query where
  "songs_sql =
     Select False
       [(Col [''song_id''], ''song_id''),
        (Col [''title''], ''title''),
        (Col [''artist_id''], ''artist_id''),
        (Col [''year''], ''year''),
        (Col [''duration''], ''duration'')]
       (Table ''song_data_table'' None)
       (Some (IsNotNull (Col [''song_id''])))"

definition artists_sql :: query where
  "artists_sql =
     Select True
       [(Col [''artist_id''], ''artist_id''),
        (Col [''artist_name''], ''artist_name''),
        (Col [''artist_location''], ''artist_location''),
        (Col [''artist_latitude''], ''artist_latitude''),
        (Col [''artist_longitude''], ''artist_longitude'')]
       (Table ''song_data_table'' None)
       (Some (IsNotNull (Col [''artist_id''])))"

definition users_sql :: query where
  "users_sql =
     Select True
       [(Col [''userId''], ''user_id''),
        (Col [''firstName''], ''first_name''),
        (Col [''lastName''], ''last_name''),
        (Col [''gender''], ''gender''),
        (Col [''level''], ''level'')]
       (Table ''log_data_table'' None)
       (Some (IsNotNull (Col [''userId''])))"

definition time_sql :: query where
  "time_sql =
     Select False
       [(Col [''temp'', ''time''], ''start_time''),
        (Call ''hour'' [Col [''temp'', ''time'']], ''hour''),
        (Call ''dayofmonth'' [Col [''temp'', ''time'']], ''day''),
        (Call ''weekofyear'' [Col [''temp'', ''time'']], ''week''),
        (Call ''month'' [Col [''temp'', ''time'']], ''month''),
        (Call ''year'' [Col [''temp'', ''time'']], ''year''),
        (Call ''dayofweek'' [Col [''temp'', ''time'']], ''weekday'')]
       (Subquery
          (Select False
             [(Call ''to_timestamp'' [Divide (Col [''log'', ''ts'']) (Lit (Num 1000))], ''time'')]
             (Table ''log_data_table'' (Some ''log''))
             (Some (IsNotNull (Col [''log'', ''ts'']))))
          ''temp'')
       None"

text \<open>
  The second item of the select list reads \<^verbatim>\<open>logT.ts\<close> in the source, the third and
  fourth read \<^verbatim>\<open>log.ts\<close>; the FROM clause binds the aliases \<^verbatim>\<open>log\<close> and
  \<^verbatim>\<open>song\<close>.
\<close>

definition songplays_from :: source where
  "songplays_from =
     Join (Table ''log_data_table'' (Some ''log''))
          (Table ''song_data_table'' (Some ''song''))
          (And (Equals (Col [''log'', ''artist'']) (Col [''song'', ''artist_name'']))
               (Equals (Col [''log'', ''song'']) (Col [''song'', ''title''])))"

definition songplays_sql :: query where
  "songplays_sql =
     Select False
       [(Call ''monotonically_increasing_id'' [], ''songplay_id''),
        (Call ''to_timestamp'' [Divide (Col [''logT'', ''ts'']) (Lit (Num 1000))], ''start_time''),
        (Call ''month'' [Call ''to_timestamp'' [Divide (Col [''log'', ''ts'']) (Lit (Num 1000))]],
           ''month''),
        (Call ''year'' [Call ''to_timestamp'' [Divide (Col [''log'', ''ts'']) (Lit (Num 1000))]],
           ''year''),
        (Col [''log'', ''userId''], ''user_id''),
        (Col [''log'', ''level''], ''level''),
        (Col [''song'', ''song_id''], ''song_id''),
        (Col [''song'', ''artist_id''], ''artist_id''),
        (Col [''log'', ''sessionId''], ''session_id''),
        (Col [''log'', ''location''], ''location''),
        (Col [''log'', ''userAgent''], ''user_agent'')]
       songplays_from
       None"

section \<open>The two stages and the run\<close>

text \<open>
  A stage returns its outcome with the session and the storage as it leaves them: when
  a statement raises, what was written before it stays written.
\<close>

type_synonym outcome = "(error + unit) \<times> spark_session \<times> storage"

definition process_song_data :: "spark_session \<Rightarrow> string \<Rightarrow> string \<Rightarrow> storage \<Rightarrow> outcome" where
  "process_song_data spark input_data output_data fs =
     (let song_data = input_data @ ''song_data/*/*/*/*.json'' in
      case read_json fs song_data of
        Inl e \<Rightarrow> (Inl e, spark, fs)
      | Inr df \<Rightarrow>
          (let spark1 = createOrReplaceTempView df ''song_data_table'' spark in
           case sql spark1 songs_sql of
             Inl e \<Rightarrow> (Inl e, spark1, fs)
           | Inr songs_table \<Rightarrow>
               (case write_parquet Overwrite [''year'', ''artist_id'']
                       (output_data @ ''songs_table/'') songs_table fs of
                  Inl e \<Rightarrow> (Inl e, spark1, fs)
                | Inr fs1 \<Rightarrow>
                    (case sql spark1 artists_sql of
                       Inl e \<Rightarrow> (Inl e, spark1, fs1)
                     | Inr artists_table \<Rightarrow>
                         (case write_parquet Overwrite []
                                 (output_data @ ''artists_table/'') artists_table fs1 of
                            Inl e \<Rightarrow> (Inl e, spark1, fs1)
                          | Inr fs2 \<Rightarrow> (Inr (), spark1, fs2))))))"

definition process_log_data :: "spark_session \<Rightarrow> string \<Rightarrow> string \<Rightarrow> storage \<Rightarrow> outcome" where
  "process_log_data spark input_data output_data fs =
     (let log_path = input_data @ ''log_data/*.json'' in
      case read_json fs log_path of
        Inl e \<Rightarrow> (Inl e, spark, fs)
      | Inr df0 \<Rightarrow>
          (case filter_df (time_zone spark) (Equals (Col [''page'']) (Lit (Str ''NextSong''))) df0 of
             Inl e \<Rightarrow> (Inl e, spark, fs)
           | Inr df \<Rightarrow>
               (let spark1 = createOrReplaceTempView df ''log_data_table'' spark in
                case sql spark1 users_sql of
                  Inl e \<Rightarrow> (Inl e, spark1, fs)
                | Inr users_table \<Rightarrow>
                    (case write_parquet Overwrite [] (output_data @ ''users_table/'') users_table fs of
                       Inl e \<Rightarrow> (Inl e, spark1, fs)
                     | Inr fs1 \<Rightarrow>
                         (case sql spark1 time_sql of
                            Inl e \<Rightarrow> (Inl e, spark1, fs1)
                          | Inr time_table \<Rightarrow>
                              (case write_parquet Overwrite [''year'', ''month'']
                                      (output_data @ ''time_table/'') time_table fs1 of
                                 Inl e \<Rightarrow> (Inl e, spark1, fs1)
                               | Inr fs2 \<Rightarrow>
                                   (case read_parquet fs2 (output_data @ ''songs_table/'') of
                                      Inl e \<Rightarrow> (Inl e, spark1, fs2)
                                    | Inr song_df \<Rightarrow>
                                        (case sql spark1 songplays_sql of
                                           Inl e \<Rightarrow> (Inl e, spark1, fs2)
                                         | Inr songplays_table \<Rightarrow>
                                             (case write_parquet Overwrite [''year'', ''month'']
                                                     (output_data @ ''songplays_table/'')
                                                     songplays_table fs2 of
                                                Inl e \<Rightarrow> (Inl e, spark1, fs2)
                                              | Inr fs3 \<Rightarrow> (Inr (), spark1, fs3))))))))))"

definition input_data :: string where
  "input_data = ''s3://udacity-dend/data/''"

definition output_data :: string where
  "output_data = ''s3://udacity-dend/results/''"

definition main :: "int \<Rightarrow> storage \<Rightarrow> outcome" where
  "main tz fs =
     (let spark = create_spark_session tz in
      case process_song_data spark input_data output_data fs of
        (Inl e, spark1, fs1) \<Rightarrow> (Inl e, spark1, fs1)
      | (Inr u, spark1, fs1) \<Rightarrow> process_log_data spark1 input_data output_data fs1)"

section \<open>The tables in terms of the records\<close>

text \<open>The events that pass the filter on \<^verbatim>\<open>page\<close>.\<close>

definition next_song :: "log_record list \<Rightarrow> log_record list" where
  "next_song logs = filter (\<lambda>r. page r = Some ''NextSong'') logs"

text \<open>
  The row each statement makes of one record, and the table it makes of a corpus; the
  lemmas of the next section derive them from \<open>run_query\<close>.
\<close>

definition songs_row :: "song_record \<Rightarrow> val list" where
  "songs_row r = [str (song_id r), str (title r), str (artist_id r), num (year r), dbl (duration r)]"

definition artists_row :: "song_record \<Rightarrow> val list" where
  "artists_row r = [str (artist_id r), str (artist_name r), str (artist_location r),
     dbl (artist_latitude r), dbl (artist_longitude r)]"

definition users_row :: "log_record \<Rightarrow> val list" where
  "users_row r = [str (userId r), str (firstName r), str (lastName r), str (gender r), str (level r)]"

definition time_row :: "int \<Rightarrow> int \<Rightarrow> val list" where
  "time_row tz t =
     (let time = to_timestamp (divide_val (Num t) (Num 1000))
      in [time, field_of (hour_of tz) time, field_of (dayofmonth_of tz) time,
          field_of (weekofyear_of tz) time, field_of (month_of tz) time,
          field_of (year_of tz) time, field_of (dayofweek_of tz) time])"

text \<open>The \<^verbatim>\<open>ts\<close> values of the filtered events that have one.\<close>

definition event_times :: "log_record list \<Rightarrow> int list" where
  "event_times logs = List.map_filter ts (next_song logs)"

text \<open>The ON condition of the join, on records: SQL equality never holds of a null.\<close>

definition matches :: "log_record \<Rightarrow> song_record \<Rightarrow> bool" where
  "matches l s = (artist l \<noteq> None \<and> artist l = artist_name s \<and> song l \<noteq> None \<and> song l = title s)"

definition songs_table :: "song_record list \<Rightarrow> dataframe" where
  "songs_table songs =
     \<lparr>columns = [''song_id'', ''title'', ''artist_id'', ''year'', ''duration''],
      rows = map songs_row (filter (\<lambda>r. song_id r \<noteq> None) songs)\<rparr>"

definition artists_table :: "song_record list \<Rightarrow> dataframe" where
  "artists_table songs =
     \<lparr>columns = [''artist_id'', ''artist_name'', ''artist_location'', ''artist_latitude'',
                 ''artist_longitude''],
      rows = remdups (map artists_row (filter (\<lambda>r. artist_id r \<noteq> None) songs))\<rparr>"

definition users_table :: "log_record list \<Rightarrow> dataframe" where
  "users_table logs =
     \<lparr>columns = [''user_id'', ''first_name'', ''last_name'', ''gender'', ''level''],
      rows = remdups (map users_row (filter (\<lambda>r. userId r \<noteq> None) (next_song logs)))\<rparr>"

definition time_table :: "int \<Rightarrow> log_record list \<Rightarrow> dataframe" where
  "time_table tz logs =
     \<lparr>columns = [''start_time'', ''hour'', ''day'', ''week'', ''month'', ''year'', ''weekday''],
      rows = map (time_row tz) (event_times logs)\<rparr>"

text \<open>The tuples of the join: one per pair of a filtered event and a song record it matches.\<close>

definition joined :: "log_record list \<Rightarrow> song_record list \<Rightarrow> val list list" where
  "joined logs songs =
     concat (map (\<lambda>l. map (\<lambda>s. log_vals l @ song_vals s) (filter (matches l) songs)) (next_song logs))"

text \<open>The cell of a row under a column name.\<close>

definition cell :: "dataframe \<Rightarrow> string \<Rightarrow> val list \<Rightarrow> val" where
  "cell df c row = (case resolve (map (Pair []) (columns df)) [c] of Inr k \<Rightarrow> row ! k | Inl e \<Rightarrow> Null)"


text \<open>
  Storage that holds a song corpus and a log corpus under the two input patterns of
  \<open>main\<close>, and no parquet table yet.
\<close>

definition bucket :: "song_record list \<Rightarrow> log_record list \<Rightarrow> storage" where
  "bucket songs logs =
     \<lparr>json = [input_data @ ''song_data/*/*/*/*.json'' \<mapsto> SongFiles songs,
               input_data @ ''log_data/*.json'' \<mapsto> LogFiles logs],
      parquet = Map.empty\<rparr>"

text \<open>The records of the end-to-end scenario.\<close>

definition scenario_song :: song_record where
  "scenario_song =
     \<lparr>song_id = Some ''S1'', title = Some ''T1'', artist_id = Some ''A1'',
      artist_name = Some ''ArtistX'', artist_location = None, artist_latitude = None,
      artist_longitude = None, year = Some 2000, duration = Some 200\<rparr>"

definition scenario_log :: log_record where
  "scenario_log =
     \<lparr>userId = Some ''7'', firstName = None, lastName = None, gender = None,
      level = Some ''free'', page = Some ''NextSong'', ts = Some 1541106106796,
      sessionId = Some 1, location = Some ''NY'', userAgent = Some ''UA'',
      artist = Some ''ArtistX'', song = Some ''T1''\<rparr>"

section \<open>What each statement computes\<close>

lemma str_eq_Null [simp]: "(str x = Null) = (x = None)"
  by (cases x) (simp_all add: str_def)

lemma num_eq_Null [simp]: "(num x = Null) = (x = None)"
  by (cases x) (simp_all add: num_def)

lemma dbl_eq_Null [simp]: "(dbl x = Null) = (x = None)"
  by (cases x) (simp_all add: dbl_def)

lemma str_eq_Str [simp]: "(str x = Str s) = (x = Some s)"
  by (cases x) (simp_all add: str_def)

lemma str_inject [simp]: "(str x = str y) = (x = y)"
  by (cases x; cases y) (simp_all add: str_def)

lemma map_enumerate_ignore: "map (\<lambda>(i, t). f t) (enumerate n xs) = map f xs"
  by (induction xs arbitrary: n) simp_all

lemma sql_songs:
  assumes "temp_views spark ''song_data_table'' = Some (songs_df rs)"
  shows "sql spark songs_sql =
    Inr \<lparr>columns = [''song_id'', ''title'', ''artist_id'', ''year'', ''duration''],
         rows = map songs_row (filter (\<lambda>r. song_id r \<noteq> None) rs)\<rparr>"
  using assms
  by (simp add: sql_def songs_sql_def songs_df_def song_columns_def qualifier_def resolve_def
      holds_def song_vals_def songs_row_def filter_map comp_def map_enumerate_ignore)

lemma sql_artists:
  assumes "temp_views spark ''song_data_table'' = Some (songs_df rs)"
  shows "sql spark artists_sql =
    Inr \<lparr>columns = [''artist_id'', ''artist_name'', ''artist_location'', ''artist_latitude'',
                    ''artist_longitude''],
         rows = remdups (map artists_row (filter (\<lambda>r. artist_id r \<noteq> None) rs))\<rparr>"
  using assms
  by (simp add: sql_def artists_sql_def songs_df_def song_columns_def qualifier_def resolve_def
      holds_def song_vals_def artists_row_def[abs_def] filter_map comp_def map_enumerate_ignore)

lemma equals_str_True [simp]: "(equals_val (str x) (Str s) = Bool True) = (x = Some s)"
  by (cases x) (simp_all add: equals_val_def str_def)

lemma filter_next_song:
  "filter_df tz (Equals (Col [''page'']) (Lit (Str ''NextSong''))) (logs_df logs)
     = Inr (logs_df (next_song logs))"
  by (simp add: filter_df_def logs_df_def log_columns_def resolve_def holds_def log_vals_def
      next_song_def filter_map comp_def)

lemma sql_users:
  assumes "temp_views spark ''log_data_table'' = Some (logs_df ls)"
  shows "sql spark users_sql =
    Inr \<lparr>columns = [''user_id'', ''first_name'', ''last_name'', ''gender'', ''level''],
         rows = remdups (map users_row (filter (\<lambda>r. userId r \<noteq> None) ls))\<rparr>"
  using assms
  by (simp add: sql_def users_sql_def logs_df_def log_columns_def qualifier_def resolve_def
      holds_def log_vals_def users_row_def[abs_def] filter_map comp_def map_enumerate_ignore)



lemma sql_time:
  assumes "temp_views spark ''log_data_table'' = Some (logs_df ls)"
  shows "sql spark time_sql =
    Inr \<lparr>columns = [''start_time'', ''hour'', ''day'', ''week'', ''month'', ''year'', ''weekday''],
         rows = map (time_row (time_zone spark)) (List.map_filter ts ls)\<rparr>"
proof -
  have "map (\<lambda>l. time_row tz (the (ts l))) (filter (\<lambda>l. ts l \<noteq> None) ls)
      = map (\<lambda>l. let time = to_timestamp (divide_val (num (ts l)) (Num 1000))
      in [time, field_of (hour_of tz) time, field_of (dayofmonth_of tz) time,
          field_of (weekofyear_of tz) time, field_of (month_of tz) time,
          field_of (year_of tz) time, field_of (dayofweek_of tz) time]) (filter (\<lambda>l. ts l \<noteq> None) ls)" for tz
    by (rule map_cong) (auto simp: time_row_def num_def)
  then show ?thesis
  using assms
  by (simp add: sql_def time_sql_def logs_df_def log_columns_def qualifier_def resolve_def
      holds_def log_vals_def filter_map comp_def map_enumerate_ignore List.map_filter_def Let_def
      builtin_arity_def)
qed

lemma and_equals_True:
  "(and_val (equals_val (str a) (str b)) (equals_val (str c) (str d)) = Bool True)
     = (a \<noteq> None \<and> a = b \<and> c \<noteq> None \<and> c = d)"
  by (cases a; cases b; cases c; cases d) (auto simp: and_val_def equals_val_def str_def)

lemma holds_join:
  "holds tz (map (Pair ''log'') log_columns @ map (Pair ''song'') song_columns)
     (And (Equals (Col [''log'', ''artist'']) (Col [''song'', ''artist_name'']))
          (Equals (Col [''log'', ''song'']) (Col [''song'', ''title''])))
     (log_vals l @ song_vals s) = matches l s"
  by (simp add: holds_def log_columns_def song_columns_def resolve_def log_vals_def song_vals_def
      and_equals_True matches_def)

lemma filter_cross:
  "filter P (cross (map f ls) (map g rs))
     = concat (map (\<lambda>l. map (\<lambda>s. f l @ g s) (filter (\<lambda>s. P (f l @ g s)) rs)) ls)"
  by (induction ls) (simp_all add: cross_def filter_map comp_def)

lemma songplays_join:
  assumes "views ''log_data_table'' = Some (logs_df ls)"
    and "views ''song_data_table'' = Some (songs_df rs)"
  shows "run_source tz views songplays_from =
    Inr \<lparr>attrs = map (Pair ''log'') log_columns @ map (Pair ''song'') song_columns,
         tuples = concat (map (\<lambda>l. map (\<lambda>s. log_vals l @ song_vals s) (filter (matches l) rs)) ls)\<rparr>"
proof -
  have "analyse_expr (map (Pair ''log'') log_columns @ map (Pair ''song'') song_columns)
     (And (Equals (Col [''log'', ''artist'']) (Col [''song'', ''artist_name'']))
          (Equals (Col [''log'', ''song'']) (Col [''song'', ''title'']))) = None"
    by (simp add: log_columns_def song_columns_def resolve_def)
  then show ?thesis
    using assms
    by (simp add: songplays_from_def qualifier_def logs_df_def songs_df_def filter_cross holds_join)
qed

lemma candidates_none:
  "(\<And>a. a \<in> set as \<Longrightarrow> \<not> refers name a) \<Longrightarrow> candidates name as i = []"
  by (induction as arbitrary: i) simp_all

lemma songplays_from_attrs:
  assumes "run_source tz views songplays_from = Inr rel"
  shows "\<exists>cs cs'. attrs rel = map (Pair ''log'') cs @ map (Pair ''song'') cs'"
proof -
  obtain ldf rdf :: dataframe
    where "attrs rel = map (Pair ''log'') (columns ldf) @ map (Pair ''song'') (columns rdf)"
    using assms
    by (auto simp: songplays_from_def qualifier_def simp del: analyse_expr.simps
        split: option.splits sum.splits)
  then show ?thesis by blast
qed

lemma logT_unresolved:
  "resolve (map (Pair ''log'') cs @ map (Pair ''song'') cs') [''logT'', ''ts'']
     = Inl (CannotResolve [''logT'', ''ts''])"
proof -
  have "candidates [''logT'', ''ts''] (map (Pair ''log'') cs @ map (Pair ''song'') cs') 0 = []"
    by (rule candidates_none) auto
  then show ?thesis
    by (simp add: resolve_def)
qed

lemma songplays_unresolved:
  assumes "run_source tz views songplays_from = Inr rel"
  shows "run_query tz views songplays_sql = Inl (CannotResolve [''logT'', ''ts''])"
proof -
  obtain cs cs' where "attrs rel = map (Pair ''log'') cs @ map (Pair ''song'') cs'"
    using songplays_from_attrs [OF assms] by blast
  then have "resolve (attrs rel) [''logT'', ''ts''] = Inl (CannotResolve [''logT'', ''ts''])"
    by (simp add: logT_unresolved)
  then show ?thesis
    using assms by (simp add: songplays_sql_def builtin_arity_def)
qed

lemma songplays_fails: "\<exists>e. sql spark songplays_sql = Inl e"
proof (cases "run_source (time_zone spark) (temp_views spark) songplays_from")
  case (Inl e)
  then show ?thesis by (simp add: sql_def songplays_sql_def)
next
  case (Inr rel)
  then show ?thesis by (simp add: sql_def songplays_unresolved)
qed

lemma songplays_no_view:
  assumes "temp_views spark ''log_data_table'' = Some df"
    and "temp_views spark ''song_data_table'' = None"
  shows "sql spark songplays_sql = Inl (TableOrViewNotFound ''song_data_table'')"
  using assms by (simp add: sql_def songplays_sql_def songplays_from_def)


lemma view_lookup [simp]:
  "temp_views (createOrReplaceTempView df name spark) n
     = (if n = name then Some df else temp_views spark n)"
  by (simp add: createOrReplaceTempView_def)

lemma view_time_zone [simp]: "time_zone (createOrReplaceTempView df name spark) = time_zone spark"
  by (simp add: createOrReplaceTempView_def)

lemma write_overwrite:
  "set partition_by \<subseteq> set (columns df) \<Longrightarrow>
   write_parquet Overwrite partition_by path df fs = Inr (fs\<lparr>parquet := (parquet fs)(path \<mapsto> df)\<rparr>)"
proof -
  assume "set partition_by \<subseteq> set (columns df)"
  then have "filter (\<lambda>c. c \<notin> set (columns df)) partition_by = []"
    by (auto simp: filter_empty_conv)
  then show ?thesis
    by (simp add: write_parquet_def)
qed

lemma process_song_data_result:
  assumes "json fs (inp @ ''song_data/*/*/*/*.json'') = Some (SongFiles songs)"
  shows "process_song_data spark inp outp fs =
     (Inr (), createOrReplaceTempView (songs_df songs) ''song_data_table'' spark,
      fs\<lparr>parquet := (parquet fs)(outp @ ''songs_table/'' \<mapsto> songs_table songs,
                                  outp @ ''artists_table/'' \<mapsto> artists_table songs)\<rparr>)"
proof -
  let ?spark1 = "createOrReplaceTempView (songs_df songs) ''song_data_table'' spark"
  have s: "sql ?spark1 songs_sql = Inr (songs_table songs)"
    by (simp add: sql_songs [where rs = songs] songs_table_def)
  have a: "sql ?spark1 artists_sql = Inr (artists_table songs)"
    by (simp add: sql_artists [where rs = songs] artists_table_def)
  have ws: "write_parquet Overwrite [''year'', ''artist_id''] p (songs_table songs) f
      = Inr (f\<lparr>parquet := (parquet f)(p \<mapsto> songs_table songs)\<rparr>)" for p f
    by (rule write_overwrite) (simp add: songs_table_def)
  have wa: "write_parquet Overwrite [] p (artists_table songs) f
      = Inr (f\<lparr>parquet := (parquet f)(p \<mapsto> artists_table songs)\<rparr>)" for p f
    by (rule write_overwrite) simp
  show ?thesis
    by (simp add: process_song_data_def read_json_def assms s a ws wa)
qed

lemma process_log_data_result:
  assumes "json fs (inp @ ''log_data/*.json'') = Some (LogFiles logs)"
  shows "process_log_data spark inp outp fs =
     ((case parquet fs (outp @ ''songs_table/'') of
         None \<Rightarrow> Inl (PathNotFound (outp @ ''songs_table/''))
       | Some song_df \<Rightarrow>
           (case sql (createOrReplaceTempView (logs_df (next_song logs)) ''log_data_table'' spark)
                   songplays_sql of
              Inl e \<Rightarrow> Inl e | Inr df \<Rightarrow> Inr ())),
      createOrReplaceTempView (logs_df (next_song logs)) ''log_data_table'' spark,
      fs\<lparr>parquet := (parquet fs)(outp @ ''users_table/'' \<mapsto> users_table logs,
                                  outp @ ''time_table/'' \<mapsto> time_table (time_zone spark) logs)\<rparr>)"
proof -
  let ?spark1 = "createOrReplaceTempView (logs_df (next_song logs)) ''log_data_table'' spark"
  have u: "sql ?spark1 users_sql = Inr (users_table logs)"
    by (simp add: sql_users [where ls = "next_song logs"] users_table_def)
  have t: "sql ?spark1 time_sql = Inr (time_table (time_zone spark) logs)"
    by (simp add: sql_time [where ls = "next_song logs"] time_table_def event_times_def)
  have wu: "write_parquet Overwrite [] p (users_table logs) f
      = Inr (f\<lparr>parquet := (parquet f)(p \<mapsto> users_table logs)\<rparr>)" for p f
    by (rule write_overwrite) simp
  have wt: "write_parquet Overwrite [''year'', ''month''] p (time_table z logs) f
      = Inr (f\<lparr>parquet := (parquet f)(p \<mapsto> time_table z logs)\<rparr>)" for p f z
    by (rule write_overwrite) (simp add: time_table_def)
  obtain e where e: "sql ?spark1 songplays_sql = Inl e"
    using songplays_fails by blast
  show ?thesis
    by (simp add: process_log_data_def read_json_def read_parquet_def assms filter_next_song
        u t wu wt e split: option.splits)
qed

lemma process_log_data_fails: "\<exists>e. fst (process_log_data spark inp outp fs) = Inl e"
proof -
  have "sql s songplays_sql \<noteq> Inr df" for s df
    using songplays_fails [of s] by auto
  then show ?thesis
    by (auto simp: process_log_data_def Let_def split: sum.splits)
qed

lemma fresh_session [simp]:
  "time_zone (create_spark_session tz) = tz"
  "temp_views (create_spark_session tz) n = None"
  by (simp_all add: create_spark_session_def)

lemma main_result:
  assumes "json fs (input_data @ ''song_data/*/*/*/*.json'') = Some (SongFiles songs)"
    and "json fs (input_data @ ''log_data/*.json'') = Some (LogFiles logs)"
  shows "main tz fs =
     (Inl (CannotResolve [''logT'', ''ts'']),
      createOrReplaceTempView (logs_df (next_song logs)) ''log_data_table''
        (createOrReplaceTempView (songs_df songs) ''song_data_table'' (create_spark_session tz)),
      fs\<lparr>parquet := (parquet fs)(output_data @ ''songs_table/'' \<mapsto> songs_table songs,
                                  output_data @ ''artists_table/'' \<mapsto> artists_table songs,
                                  output_data @ ''users_table/'' \<mapsto> users_table logs,
                                  output_data @ ''time_table/'' \<mapsto> time_table tz logs)\<rparr>)"
proof -
  let ?spark1 = "createOrReplaceTempView (songs_df songs) ''song_data_table'' (create_spark_session tz)"
  let ?spark2 = "createOrReplaceTempView (logs_df (next_song logs)) ''log_data_table'' ?spark1"
  let ?fs1 = "fs\<lparr>parquet := (parquet fs)(output_data @ ''songs_table/'' \<mapsto> songs_table songs,
                                  output_data @ ''artists_table/'' \<mapsto> artists_table songs)\<rparr>"
  have one: "process_song_data (create_spark_session tz) input_data output_data fs
      = (Inr (), ?spark1, ?fs1)"
    by (rule process_song_data_result [OF assms(1)])
  have "run_source (time_zone ?spark2) (temp_views ?spark2) songplays_from
      = Inr \<lparr>attrs = map (Pair ''log'') log_columns @ map (Pair ''song'') song_columns,
             tuples = joined logs songs\<rparr>"
    unfolding joined_def by (rule songplays_join) simp_all
  then have q: "sql ?spark2 songplays_sql = Inl (CannotResolve [''logT'', ''ts''])"
    unfolding sql_def by (rule songplays_unresolved)
  have "json ?fs1 (input_data @ ''log_data/*.json'') = Some (LogFiles logs)"
    using assms(2) by simp
  from process_log_data_result [OF this, of ?spark1 output_data]
  have two: "process_log_data ?spark1 input_data output_data ?fs1
      = (Inl (CannotResolve [''logT'', ''ts'']), ?spark2,
         ?fs1\<lparr>parquet := (parquet ?fs1)(output_data @ ''users_table/'' \<mapsto> users_table logs,
              output_data @ ''time_table/'' \<mapsto> time_table (time_zone ?spark1) logs)\<rparr>)"
    by (simp add: q)
  show ?thesis
    by (simp add: main_def one two)
qed

lemma bucket_json:
  "json (bucket songs logs) (input_data @ ''song_data/*/*/*/*.json'') = Some (SongFiles songs)"
  "json (bucket songs logs) (input_data @ ''log_data/*.json'') = Some (LogFiles logs)"
  by (simp_all add: bucket_def)

lemma bucket_parquet [simp]: "parquet (bucket songs logs) p = None"
  by (simp add: bucket_def)



lemma calendar_checks:
  "civil_from_days 0 = (1970, 1, 1)"
  "civil_from_days 11016 = (2000, 2, 29)"
  "civil_from_days (-1) = (1969, 12, 31)"
  "days_from_civil 2018 1 1 = 17532"
  "weekofyear_of 0 1546214400000000 = 1"
  "weekofyear_of 0 1451606400000000 = 53"
  "dayofweek_of 0 1451606400000000 = 6"
  by code_simp+



lemma cell_songs:
  "cell (songs_table songs) ''song_id'' (songs_row r) = str (song_id r)"
  "cell (songs_table songs) ''title'' (songs_row r) = str (title r)"
  "cell (songs_table songs) ''artist_id'' (songs_row r) = str (artist_id r)"
  "cell (songs_table songs) ''year'' (songs_row r) = num (year r)"
  "cell (songs_table songs) ''duration'' (songs_row r) = dbl (duration r)"
  by (simp_all add: cell_def songs_table_def resolve_def songs_row_def)

lemma cell_artist_id: "cell (artists_table songs) ''artist_id'' (artists_row r) = str (artist_id r)"
  by (simp add: cell_def artists_table_def resolve_def artists_row_def)

lemma cell_user_id: "cell (users_table logs) ''user_id'' (users_row r) = str (userId r)"
  by (simp add: cell_def users_table_def resolve_def users_row_def)


section \<open>The end-to-end scenario\<close>

text \<open>
  C2. The spec expects the run on the single song record and the single log record of
  the scenario to write one Songplays row. The run raises instead: the songplays
  statement refers to \<^verbatim>\<open>logT.ts\<close>, and no table of its FROM clause goes by the
  name \<^verbatim>\<open>logT\<close>. Songs, Artists, Users and Time are written before that; nothing is
  written under \<^verbatim>\<open>songplays_table/\<close>.
\<close>

theorem scenario_raises:
  "fst (main tz (bucket [scenario_song] [scenario_log])) = Inl (CannotResolve [''logT'', ''ts''])
   \<and> parquet (snd (snd (main tz (bucket [scenario_song] [scenario_log]))))
        (output_data @ ''songplays_table/'') = None"
  by (simp add: main_result [OF bucket_json])

section \<open>Song-Catalog stage: Songs and Artists\<close>

text \<open>
  C7. Whatever the song corpus, the stage writes a Songs table that has one row per
  input record with a non-null \<^verbatim>\<open>song_id\<close>, in order, carrying that record's
  \<^verbatim>\<open>song_id\<close>, \<^verbatim>\<open>title\<close>, \<^verbatim>\<open>artist_id\<close>, \<^verbatim>\<open>year\<close> and \<^verbatim>\<open>duration\<close>; no
  row of it has a null \<^verbatim>\<open>song_id\<close>. The Artists table it writes has no row with a
  null \<^verbatim>\<open>artist_id\<close> and no row twice.
\<close>

theorem songs_artists_keys:
  assumes "json fs (inp @ ''song_data/*/*/*/*.json'') = Some (SongFiles songs)"
  shows "parquet (snd (snd (process_song_data spark inp outp fs))) (outp @ ''songs_table/'')
           = Some (songs_table songs)
       \<and> parquet (snd (snd (process_song_data spark inp outp fs))) (outp @ ''artists_table/'')
           = Some (artists_table songs)
       \<and> rows (songs_table songs) = map songs_row (filter (\<lambda>r. song_id r \<noteq> None) songs)
       \<and> (\<forall>r. cell (songs_table songs) ''song_id'' (songs_row r) = str (song_id r)
              \<and> cell (songs_table songs) ''title'' (songs_row r) = str (title r)
              \<and> cell (songs_table songs) ''artist_id'' (songs_row r) = str (artist_id r)
              \<and> cell (songs_table songs) ''year'' (songs_row r) = num (year r)
              \<and> cell (songs_table songs) ''duration'' (songs_row r) = dbl (duration r))
       \<and> (\<forall>row \<in> set (rows (songs_table songs)). cell (songs_table songs) ''song_id'' row \<noteq> Null)
       \<and> (\<forall>row \<in> set (rows (artists_table songs)). cell (artists_table songs) ''artist_id'' row \<noteq> Null)
       \<and> distinct (rows (artists_table songs))"
proof -
  have written:
    "parquet (snd (snd (process_song_data spark inp outp fs))) (outp @ ''songs_table/'')
       = Some (songs_table songs)"
    "parquet (snd (snd (process_song_data spark inp outp fs))) (outp @ ''artists_table/'')
       = Some (artists_table songs)"
    by (simp_all add: process_song_data_result [OF assms])
  have rows_songs: "rows (songs_table songs) = map songs_row (filter (\<lambda>r. song_id r \<noteq> None) songs)"
    by (simp add: songs_table_def)
  have rows_artists:
    "rows (artists_table songs) = remdups (map artists_row (filter (\<lambda>r. artist_id r \<noteq> None) songs))"
    by (simp add: artists_table_def)
  have key_songs: "\<forall>row \<in> set (rows (songs_table songs)). cell (songs_table songs) ''song_id'' row \<noteq> Null"
    unfolding rows_songs by (auto simp: cell_songs)
  have key_artists:
    "\<forall>row \<in> set (rows (artists_table songs)). cell (artists_table songs) ''artist_id'' row \<noteq> Null"
    unfolding rows_artists by (auto simp: cell_artist_id)
  have "distinct (rows (artists_table songs))"
    unfolding rows_artists by simp
  with written rows_songs key_songs key_artists show ?thesis
    by (simp add: cell_songs)
qed

theorem songs_artists_keys_witness:
  "json (bucket [scenario_song, scenario_song\<lparr>song_id := None\<rparr>] [])
      (input_data @ ''song_data/*/*/*/*.json'')
     = Some (SongFiles [scenario_song, scenario_song\<lparr>song_id := None\<rparr>])
   \<and> parquet (snd (snd (process_song_data (create_spark_session 0) input_data output_data
        (bucket [scenario_song, scenario_song\<lparr>song_id := None\<rparr>] []))))
        (output_data @ ''songs_table/'')
     = Some \<lparr>columns = [''song_id'', ''title'', ''artist_id'', ''year'', ''duration''],
             rows = [[Str ''S1'', Str ''T1'', Str ''A1'', Num 2000, Dbl 200]]\<rparr>
   \<and> parquet (snd (snd (process_song_data (create_spark_session 0) input_data output_data
        (bucket [scenario_song, scenario_song\<lparr>song_id := None\<rparr>] []))))
        (output_data @ ''artists_table/'')
     = Some \<lparr>columns = [''artist_id'', ''artist_name'', ''artist_location'', ''artist_latitude'',
                        ''artist_longitude''],
             rows = [[Str ''A1'', Str ''ArtistX'', Null, Null, Null]]\<rparr>"
  using songs_artists_keys [where spark = "create_spark_session 0" and outp = output_data,
      OF bucket_json(1), of "[scenario_song, scenario_song\<lparr>song_id := None\<rparr>]" "[]"]
  by (simp add: bucket_json songs_table_def artists_table_def songs_row_def artists_row_def
      scenario_song_def str_def num_def dbl_def)

section \<open>Event-Log stage: Users and Time\<close>

lemma log_stage_tables:
  assumes "json fs (inp @ ''log_data/*.json'') = Some (LogFiles logs)"
  shows "parquet (snd (snd (process_log_data spark inp outp fs))) (outp @ ''users_table/'')
           = Some (users_table logs)"
    and "parquet (snd (snd (process_log_data spark inp outp fs))) (outp @ ''time_table/'')
           = Some (time_table (time_zone spark) logs)"
  by (simp_all add: process_log_data_result [OF assms])

text \<open>
  C6, as the code has it. Whatever the log corpus, the Users table written has one row
  for each distinct tuple (\<^verbatim>\<open>userId\<close>, \<^verbatim>\<open>firstName\<close>, \<^verbatim>\<open>lastName\<close>,
  \<^verbatim>\<open>gender\<close>, \<^verbatim>\<open>level\<close>) among the NextSong events with a non-null
  \<^verbatim>\<open>userId\<close>: no row has a null \<^verbatim>\<open>user_id\<close> and no row occurs twice. The
  statement deduplicates whole rows, not \<^verbatim>\<open>user_id\<close> values.
\<close>

theorem users_rows:
  assumes "json fs (inp @ ''log_data/*.json'') = Some (LogFiles logs)"
  shows "parquet (snd (snd (process_log_data spark inp outp fs))) (outp @ ''users_table/'')
           = Some (users_table logs)
       \<and> rows (users_table logs)
           = remdups (map users_row (filter (\<lambda>r. userId r \<noteq> None) (next_song logs)))
       \<and> (\<forall>r. cell (users_table logs) ''user_id'' (users_row r) = str (userId r))
       \<and> (\<forall>row \<in> set (rows (users_table logs)). cell (users_table logs) ''user_id'' row \<noteq> Null)
       \<and> distinct (rows (users_table logs))"
proof -
  have rows_users: "rows (users_table logs)
      = remdups (map users_row (filter (\<lambda>r. userId r \<noteq> None) (next_song logs)))"
    by (simp add: users_table_def)
  have key: "\<forall>row \<in> set (rows (users_table logs)). cell (users_table logs) ''user_id'' row \<noteq> Null"
    unfolding rows_users by (auto simp: cell_user_id)
  have "distinct (rows (users_table logs))"
    unfolding rows_users by simp
  with log_stage_tables(1) [OF assms] rows_users key show ?thesis
    by (simp add: cell_user_id)
qed

text \<open>C6, witness: two equal events of user 7 give one Users row.\<close>

theorem users_rows_witness:
  "json (bucket [] [scenario_log, scenario_log]) (input_data @ ''log_data/*.json'')
     = Some (LogFiles [scenario_log, scenario_log])
   \<and> parquet (snd (snd (process_log_data (create_spark_session 0) input_data output_data
        (bucket [] [scenario_log, scenario_log])))) (output_data @ ''users_table/'')
     = Some \<lparr>columns = [''user_id'', ''first_name'', ''last_name'', ''gender'', ''level''],
             rows = [[Str ''7'', Null, Null, Null, Str ''free'']]\<rparr>"
  using users_rows [where spark = "create_spark_session 0" and outp = output_data,
      OF bucket_json(2), of "[]" "[scenario_log, scenario_log]"]
  by (simp add: bucket_json users_table_def users_row_def next_song_def scenario_log_def
      str_def)

text \<open>
  C6, counterexample to the third part of the claim (no two distinct rows with the same
  \<^verbatim>\<open>user_id\<close>): user 7 plays once at level free and once at level paid, and the Users
  table holds two rows for \<^verbatim>\<open>user_id\<close> 7.
\<close>

theorem users_share_id_counterexample:
  "parquet (snd (snd (main 0 (bucket [scenario_song]
        [scenario_log, scenario_log\<lparr>level := Some ''paid''\<rparr>])))) (output_data @ ''users_table/'')
     = Some \<lparr>columns = [''user_id'', ''first_name'', ''last_name'', ''gender'', ''level''],
             rows = [[Str ''7'', Null, Null, Null, Str ''free''],
                     [Str ''7'', Null, Null, Null, Str ''paid'']]\<rparr>"
  by (simp add: main_result [OF bucket_json] users_table_def users_row_def next_song_def
      scenario_log_def str_def)






section \<open>The songplays join\<close>










section \<open>Where the join takes its song rows from\<close>






text \<open>
  C10. When the session has no view \<^verbatim>\<open>song_data_table\<close>, the Event-Log stage, given
  its log files and a Songs table persisted by an earlier run, writes Users and Time,
  reads the persisted Songs table successfully, and then the songplays statement raises
  "table or view not found": the parquet read does not stand in for the view, and nothing
  is written under \<^verbatim>\<open>songplays_table/\<close>.
\<close>

theorem log_stage_without_view:
  assumes "temp_views spark ''song_data_table'' = None"
    and "json fs (inp @ ''log_data/*.json'') = Some (LogFiles logs)"
    and "parquet fs (outp @ ''songs_table/'') = Some persisted"
  shows "process_log_data spark inp outp fs =
      (Inl (TableOrViewNotFound ''song_data_table''),
       createOrReplaceTempView (logs_df (next_song logs)) ''log_data_table'' spark,
       fs\<lparr>parquet := (parquet fs)(outp @ ''users_table/'' \<mapsto> users_table logs,
                                   outp @ ''time_table/'' \<mapsto> time_table (time_zone spark) logs)\<rparr>)
       \<and> read_parquet (snd (snd (process_log_data spark inp outp fs))) (outp @ ''songs_table/'')
           = Inr persisted
       \<and> sql (fst (snd (process_log_data spark inp outp fs))) songplays_sql
           = Inl (TableOrViewNotFound ''song_data_table'')
       \<and> parquet (snd (snd (process_log_data spark inp outp fs))) (outp @ ''songplays_table/'')
           = parquet fs (outp @ ''songplays_table/'')"
proof -
  let ?spark1 = "createOrReplaceTempView (logs_df (next_song logs)) ''log_data_table'' spark"
  have q: "sql ?spark1 songplays_sql = Inl (TableOrViewNotFound ''song_data_table'')"
    by (rule songplays_no_view [where df = "logs_df (next_song logs)"]) (simp_all add: assms(1))
  have run: "process_log_data spark inp outp fs =
      (Inl (TableOrViewNotFound ''song_data_table''), ?spark1,
       fs\<lparr>parquet := (parquet fs)(outp @ ''users_table/'' \<mapsto> users_table logs,
                                   outp @ ''time_table/'' \<mapsto> time_table (time_zone spark) logs)\<rparr>)"
    by (simp add: process_log_data_result [OF assms(2)] assms(3) q)
  show ?thesis
    unfolding run by (simp add: q read_parquet_def assms(3))
qed

text \<open>
  C10, witness: a new session, the scenario's log file, and the Songs table of the
  scenario left by an earlier run.
\<close>

theorem log_stage_without_view_witness:
  "temp_views (create_spark_session 0) ''song_data_table'' = None
   \<and> json ((bucket [] [scenario_log])
        \<lparr>parquet := [output_data @ ''songs_table/'' \<mapsto> songs_table [scenario_song]]\<rparr>)
        (input_data @ ''log_data/*.json'') = Some (LogFiles [scenario_log])
   \<and> parquet ((bucket [] [scenario_log])
        \<lparr>parquet := [output_data @ ''songs_table/'' \<mapsto> songs_table [scenario_song]]\<rparr>)
        (output_data @ ''songs_table/'') = Some (songs_table [scenario_song])
   \<and> fst (process_log_data (create_spark_session 0) input_data output_data
        ((bucket [] [scenario_log])
           \<lparr>parquet := [output_data @ ''songs_table/'' \<mapsto> songs_table [scenario_song]]\<rparr>))
     = Inl (TableOrViewNotFound ''song_data_table'')"
proof -
  let ?fs = "(bucket [] [scenario_log])
        \<lparr>parquet := [output_data @ ''songs_table/'' \<mapsto> songs_table [scenario_song]]\<rparr>"
  have a: "temp_views (create_spark_session 0) ''song_data_table'' = None"
    by simp
  have b: "json ?fs (input_data @ ''log_data/*.json'') = Some (LogFiles [scenario_log])"
    by (simp add: bucket_json)
  have c: "parquet ?fs (output_data @ ''songs_table/'') = Some (songs_table [scenario_song])"
    by simp
  from log_stage_without_view [OF a b c] a b c show ?thesis
    by simp
qed

section \<open>Running the pipeline again\<close>





end
